theory Spec2Isabelle
  imports Main
begin

section \<open>Strings and the address format\<close>

text \<open>
  Python strings are modelled as \<^typ>\<open>string\<close>, each character read as the code point
  of the same number (0 to 255); code points above 255 are outside the model.
  \<open>is_space\<close> is \<^verbatim>\<open>str.isspace\<close> on that range, \<open>str_strip\<close> is \<^verbatim>\<open>str.strip()\<close>
  and \<open>str_lower\<close> is \<^verbatim>\<open>str.lower()\<close>.
\<close>

definition is_space :: "char \<Rightarrow> bool" where
  "is_space c =
     (let n = (of_char c :: nat)
      in (9 \<le> n \<and> n \<le> 13) \<or> (28 \<le> n \<and> n \<le> 32) \<or> n = 133 \<or> n = 160)"

definition str_strip :: "string \<Rightarrow> string" where
  "str_strip s = rev (dropWhile is_space (rev (dropWhile is_space s)))"

definition lower_char :: "char \<Rightarrow> char" where
  "lower_char c =
     (let n = (of_char c :: nat)
      in if (65 \<le> n \<and> n \<le> 90) \<or> (192 \<le> n \<and> n \<le> 222 \<and> n \<noteq> 215)
         then char_of (n + 32) else c)"

definition str_lower :: "string \<Rightarrow> string" where
  "str_lower s = map lower_char s"

text \<open>The character class \<^verbatim>\<open>[0-9a-fA-F]\<close>.\<close>

definition is_hex :: "char \<Rightarrow> bool" where
  "is_hex c = (c \<in> set ''0123456789abcdefABCDEF'')"

text \<open>
  \<^verbatim>\<open>ADDR_RE.match(s)\<close> for \<^verbatim>\<open>ADDR_RE = re.compile(r"^[0-9a-fA-F]{40}$")\<close>: forty
  characters of the class, then the end of the string; Python's \<^verbatim>\<open>$\<close> also matches
  just before one final newline.
\<close>

definition ADDR_RE_match :: "string \<Rightarrow> bool" where
  "ADDR_RE_match s =
     (40 \<le> length s \<and> list_all is_hex (take 40 s) \<and>
      (drop 40 s = [] \<or> drop 40 s = [char_of (10 :: nat)]))"

datatype exn =
    ValueError string
  | RuntimeError string
  | AttributeError string
  | OtherError string

text \<open>\<^verbatim>\<open>str(e)\<close> of an exception: its message.\<close>

fun str_exn :: "exn \<Rightarrow> string" where
  "str_exn (ValueError m) = m"
| "str_exn (RuntimeError m) = m"
| "str_exn (AttributeError m) = m"
| "str_exn (OtherError m) = m"

text \<open>
  \<^verbatim>\<open>
  def normalize_addr(addr: str) -> str:
      addr = (addr or "").strip()
      if not ADDR_RE.match(addr):
          raise ValueError("bad address format")
      return addr.lower()
  \<close>
\<close>

definition normalize_addr :: "string \<Rightarrow> exn + string" where
  "normalize_addr addr =
     (let a = str_strip addr
      in if \<not> ADDR_RE_match a then Inl (ValueError ''bad address format'')
         else Inr (str_lower a))"

text \<open>Decimal rendering of an integer inside an f-string, and \<^verbatim>\<open>needle in hay\<close>.\<close>

fun str_nat :: "nat \<Rightarrow> string" where
  "str_nat n =
     (if n < 10 then [char_of (48 + n)]
      else str_nat (n div 10) @ [char_of (48 + n mod 10)])"

declare str_nat.simps [simp del]

definition str_int :: "int \<Rightarrow> string" where
  "str_int i = (if i < 0 then CHR ''-'' # str_nat (nat (- i)) else str_nat (nat i))"

primrec str_contains :: "string \<Rightarrow> string \<Rightarrow> bool" where
  "str_contains [] needle = (needle = [])"
| "str_contains (c # cs) needle =
     (take (length needle) (c # cs) = needle \<or> str_contains cs needle)"

section \<open>Configuration\<close>

text \<open>
  The module-level settings read from the environment. \<open>ALLOWED_CHANNEL_ID\<close> is kept
  in the three forms \<open>channel_allowed\<close> tells apart: empty, a text on which
  \<^verbatim>\<open>int(...)\<close> raises, and the integer it denotes otherwise.
\<close>

datatype channel_setting = Unrestricted | NotANumber | Channel int

record config =
  DISCORD_TOKEN :: string
  FAUCET_API_BASE :: string
  FAUCET_SENDER_SECRET :: string
  FAUCET_AMOUNT :: int
  COOLDOWN_SECONDS :: int
  DATA_FILE :: string
  ALLOWED_CHANNEL_ID :: channel_setting

record interaction =
  channel_id :: "int option"
  user_id :: int

text \<open>
  \<^verbatim>\<open>
  def channel_allowed(interaction):
      if not ALLOWED_CHANNEL_ID:
          return True
      try:
          return interaction.channel_id == int(ALLOWED_CHANNEL_ID)
      except Exception:
          return False
  \<close>
\<close>

definition channel_allowed :: "config \<Rightarrow> interaction \<Rightarrow> bool" where
  "channel_allowed cfg ia =
     (case ALLOWED_CHANNEL_ID cfg of
        Unrestricted \<Rightarrow> True
      | NotANumber \<Rightarrow> False
      | Channel n \<Rightarrow> channel_id ia = Some n)"

section \<open>Persistence\<close>

text \<open>
  What \<^verbatim>\<open>json.loads\<close> returns. A number with a fraction or an exponent (a Python
  \<^verbatim>\<open>float\<close>) is kept as its text.
\<close>

datatype json =
    JNull
  | JBool bool
  | JInt int
  | JFloat string
  | JStr string
  | JList "json list"
  | JObj "(string \<times> json) list"

text \<open>
  A user's entry of the data file. The program writes the three keys below; a key that
  is absent is \<open>None\<close>. Keys it does not know are kept in \<open>other\<close>.
\<close>

record user_rec =
  address :: "string option"
  registered_at :: "int option"
  last_claim_at :: "int option"
  other :: "(string \<times> json) list"

definition empty_rec :: user_rec where
  "empty_rec = \<lparr>address = None, registered_at = None, last_claim_at = None, other = []\<rparr>"

text \<open>
  The document \<^verbatim>\<open>{"users": {...}}\<close>: the value under \<^verbatim>\<open>"users"\<close>, keyed by
  \<^verbatim>\<open>str(discord_user_id)\<close> (modelled by the identifier itself), or \<open>None\<close> when the
  key is absent. The store is the parsed content of \<open>DATA_FILE\<close>, \<open>None\<close> when the file
  does not exist.
\<close>

type_synonym data = "(int \<Rightarrow> user_rec option) option"
type_synonym store = "data option"

definition load_data :: "store \<Rightarrow> data" where
  "load_data st = (case st of None \<Rightarrow> Some Map.empty | Some d \<Rightarrow> d)"

definition save_data :: "data \<Rightarrow> store \<Rightarrow> store" where
  "save_data d st = Some d"

definition get_user :: "data \<Rightarrow> int \<Rightarrow> user_rec option" where
  "get_user d uid = (case d of None \<Rightarrow> None | Some us \<Rightarrow> us uid)"

definition set_user :: "data \<Rightarrow> int \<Rightarrow> user_rec \<Rightarrow> data" where
  "set_user d uid r = Some ((case d of None \<Rightarrow> Map.empty | Some us \<Rightarrow> us)(uid \<mapsto> r))"

text \<open>\<^verbatim>\<open>get_user(data, uid) or {}\<close>: a missing or empty entry is a fresh empty one.\<close>

definition or_empty :: "user_rec option \<Rightarrow> user_rec" where
  "or_empty r = (case r of None \<Rightarrow> empty_rec | Some x \<Rightarrow> x)"

text \<open>Truthiness of an optional string: present and not empty.\<close>

definition truthy :: "string option \<Rightarrow> bool" where
  "truthy s = (case s of None \<Rightarrow> False | Some x \<Rightarrow> x \<noteq> [])"

text \<open>\<^verbatim>\<open>int(rec.get("last_claim_at", 0) or 0)\<close>.\<close>

definition last_claim_of :: "user_rec \<Rightarrow> int" where
  "last_claim_of r = (case last_claim_at r of None \<Rightarrow> 0 | Some v \<Rightarrow> v)"

subsection \<open>The file system under \<open>save_data\<close>\<close>

text \<open>
  \<^verbatim>\<open>
  def save_data(data):
      tmp = DATA_FILE + ".tmp"
      with open(tmp, "w", encoding="utf-8") as f:
          json.dump(data, f, ensure_ascii=False, indent=2)
      os.replace(tmp, DATA_FILE)
  \<close>
  A file system maps a path to the text stored there. \<open>save_data_trace\<close> lists the
  file systems \<open>save_data\<close> passes through when it writes the text \<open>txt\<close> (the dump of
  the data): the one it starts in; the temporary file opened (truncated) and then
  holding each longer prefix of \<open>txt\<close> (what has reached the file so far), up to all
  of it when the \<^verbatim>\<open>with\<close> block closes the file; and last the temporary file renamed
  onto \<open>DATA_FILE\<close> by \<^verbatim>\<open>os.replace\<close>, taken as one step. A crash stops \<open>save_data\<close>
  in one of these.
\<close>

type_synonym fs = "string \<Rightarrow> string option"

definition tmp_path :: "string \<Rightarrow> string" where
  "tmp_path data_file = data_file @ ''.tmp''"

definition os_replace :: "string \<Rightarrow> string \<Rightarrow> fs \<Rightarrow> fs" where
  "os_replace src dst f = (f(dst := f src))(src := None)"

definition write_steps :: "string \<Rightarrow> string \<Rightarrow> fs \<Rightarrow> fs list" where
  "write_steps path txt f = map (\<lambda>n. f(path \<mapsto> take n txt)) [0 ..< Suc (length txt)]"

definition save_data_trace :: "string \<Rightarrow> string \<Rightarrow> fs \<Rightarrow> fs list" where
  "save_data_trace data_file txt f =
     (let tmp = tmp_path data_file;
          written = write_steps tmp txt f
      in f # written @ [os_replace tmp data_file (last written)])"

section \<open>The transfer service\<close>

text \<open>
  What one HTTP exchange gives: an exception raised by the client (timeout, connection
  failure), or a status and a body. \<open>json_loads\<close> stands for \<^verbatim>\<open>json.loads\<close>, which
  returns the parsed value or raises.
\<close>

datatype http_outcome = HttpRaised exn | HttpResponse int string

definition api_get_me :: "(string \<Rightarrow> exn + json) \<Rightarrow> http_outcome \<Rightarrow> exn + json" where
  "api_get_me json_loads out =
     (case out of
        HttpRaised e \<Rightarrow> Inl e
      | HttpResponse status txt \<Rightarrow>
          if status \<noteq> 200
          then Inl (RuntimeError (''/me failed ('' @ str_int status @ ''): '' @ txt))
          else json_loads txt)"

definition api_transfer :: "(string \<Rightarrow> exn + json) \<Rightarrow> http_outcome \<Rightarrow> exn + json" where
  "api_transfer json_loads out =
     (case out of
        HttpRaised e \<Rightarrow> Inl e
      | HttpResponse status txt \<Rightarrow>
          if status \<noteq> 200
          then Inl (RuntimeError (''/transfer failed ('' @ str_int status @ ''): '' @ txt))
          else json_loads txt)"

text \<open>
  \<^verbatim>\<open>d.get(key)\<close>: on a value that is not a dict the attribute lookup raises
  \<^verbatim>\<open>AttributeError\<close>, whose message names the value's Python type between apostrophes,
  as in \<^verbatim>\<open>'list' object has no attribute 'get'\<close>.
\<close>

fun py_type_name :: "json \<Rightarrow> string" where
  "py_type_name JNull = ''NoneType''"
| "py_type_name (JBool v) = ''bool''"
| "py_type_name (JInt v) = ''int''"
| "py_type_name (JFloat v) = ''float''"
| "py_type_name (JStr v) = ''str''"
| "py_type_name (JList v) = ''list''"
| "py_type_name (JObj v) = ''dict''"

definition quoted :: "string \<Rightarrow> string" where
  "quoted s = [char_of (39 :: nat)] @ s @ [char_of (39 :: nat)]"

definition no_attribute_get :: "json \<Rightarrow> exn" where
  "no_attribute_get j =
     AttributeError (quoted (py_type_name j) @ '' object has no attribute '' @ quoted ''get'')"

definition dict_get :: "json \<Rightarrow> string \<Rightarrow> exn + json option" where
  "dict_get j k =
     (case j of
        JObj kvs \<Rightarrow> Inr (map_of kvs k)
      | _ \<Rightarrow> Inl (no_attribute_get j))"

section \<open>The bot\<close>

record bot =
  sender_address :: "string option"

text \<open>
  \<open>setup_hook\<close>: the sender address is resolved once, when a sender secret is
  configured and \<^verbatim>\<open>/me\<close> answers with a string of the address format under
  \<^verbatim>\<open>account_id\<close>; every failure leaves it unset. (The slash-command sync that follows
  belongs to the chat front end.)
\<close>

definition setup_hook :: "config \<Rightarrow> (string \<Rightarrow> exn + json) \<Rightarrow> http_outcome \<Rightarrow> bot" where
  "setup_hook cfg json_loads me_out =
     (if FAUCET_SENDER_SECRET cfg \<noteq> []
      then (case api_get_me json_loads me_out of
              Inl e \<Rightarrow> \<lparr>sender_address = None\<rparr>
            | Inr me \<Rightarrow>
                (case dict_get me ''account_id'' of
                   Inl e \<Rightarrow> \<lparr>sender_address = None\<rparr>
                 | Inr (Some (JStr addr)) \<Rightarrow>
                     if ADDR_RE_match addr then \<lparr>sender_address = Some (str_lower addr)\<rparr>
                     else \<lparr>sender_address = None\<rparr>
                 | Inr _ \<Rightarrow> \<lparr>sender_address = None\<rparr>))
      else \<lparr>sender_address = None\<rparr>)"

text \<open>\<^verbatim>\<open>bot.sender_address and addr == bot.sender_address\<close>.\<close>

definition is_sender :: "bot \<Rightarrow> string \<Rightarrow> bool" where
  "is_sender b addr = (truthy (sender_address b) \<and> Some addr = sender_address b)"

datatype startup = SystemExit string | BotRun string

text \<open>
  \<^verbatim>\<open>
  def main():
      if not DISCORD_TOKEN:
          raise SystemExit("Missing DISCORD_TOKEN")
      bot.run(DISCORD_TOKEN)
  \<close>
\<close>

definition main :: "config \<Rightarrow> startup" where
  "main cfg =
     (if DISCORD_TOKEN cfg = [] then SystemExit ''Missing DISCORD_TOKEN''
      else BotRun (DISCORD_TOKEN cfg))"

section \<open>Commands\<close>

text \<open>
  What a command answers. \<open>CooldownActive rem h m\<close> carries the remaining seconds and
  the hours and minutes shown; \<open>HandlerError\<close> is an exception that leaves the handler
  (no answer is sent).
\<close>

datatype cooldown_status = Ready | Remaining int int int

datatype reply =
    ChannelNotAllowed
  | InvalidFormat
  | SelfAddressRejected
  | Registered string
  | Misconfigured
  | NotRegistered
  | CooldownActive int int int
  | ClaimFailedUnknownRecipient
  | ClaimFailedInsufficient
  | ClaimFailedGeneric string
  | ClaimSuccessful int string "json option" "json option"
  | WhoAmI string cooldown_status "string option"
  | HandlerError exn

text \<open>
  \<open>register_address\<close> at time \<open>t\<close> (the value of \<^verbatim>\<open>now_ts()\<close>): the answer and the store
  it leaves.
\<close>

definition register_address ::
  "config \<Rightarrow> bot \<Rightarrow> interaction \<Rightarrow> string \<Rightarrow> int \<Rightarrow> store \<Rightarrow> reply \<times> store" where
  "register_address cfg b ia addr_in t st =
     (if \<not> channel_allowed cfg ia then (ChannelNotAllowed, st)
      else case normalize_addr addr_in of
        Inl e \<Rightarrow> (InvalidFormat, st)
      | Inr addr \<Rightarrow>
          if is_sender b addr then (SelfAddressRejected, st)
          else
            let d = load_data st;
                r = or_empty (get_user d (user_id ia));
                r1 = r\<lparr>address := Some addr\<rparr>;
                r2 = r1\<lparr>registered_at := Some t\<rparr>;
                r3 = (case last_claim_at r2 of
                        None \<Rightarrow> r2\<lparr>last_claim_at := Some 0\<rparr>
                      | Some v \<Rightarrow> r2);
                d' = set_user d (user_id ia) r3
            in (Registered addr, save_data d' st))"

text \<open>
  \<open>claim\<close>, in the three parts the source runs: the checks up to the cooldown
  (the store is read under the lock), the transfer (no lock held), and the commit
  (the store is read again and written under the lock).
  \<open>claim_check\<close> answers at once (\<open>Inl\<close>) or goes on to the transfer with the target
  address (\<open>Inr\<close>).
\<close>

definition claim_check ::
  "config \<Rightarrow> bot \<Rightarrow> interaction \<Rightarrow> int \<Rightarrow> store \<Rightarrow> reply + string" where
  "claim_check cfg b ia t st =
     (if \<not> channel_allowed cfg ia then Inl ChannelNotAllowed
      else if FAUCET_SENDER_SECRET cfg = [] then Inl Misconfigured
      else
        let d = load_data st;
            r = get_user d (user_id ia)
        in case r of
             None \<Rightarrow> Inl NotRegistered
           | Some rc \<Rightarrow>
               (case address rc of
                  None \<Rightarrow> Inl NotRegistered
                | Some to_addr \<Rightarrow>
                    if to_addr = [] then Inl NotRegistered
                    else if is_sender b to_addr then Inl SelfAddressRejected
                    else
                      let last_claim = last_claim_of rc in
                      if last_claim \<noteq> 0 \<and> t < last_claim + COOLDOWN_SECONDS cfg
                      then
                        let rem = (last_claim + COOLDOWN_SECONDS cfg) - t;
                            h = rem div 3600;
                            m = (rem mod 3600) div 60
                        in Inl (CooldownActive rem h m)
                      else Inr to_addr))"

text \<open>The \<^verbatim>\<open>except Exception as e\<close> branch: the answer chosen from \<^verbatim>\<open>str(e)\<close>.\<close>

definition claim_failed :: "exn \<Rightarrow> reply" where
  "claim_failed e =
     (let msg = str_exn e
      in if str_contains msg ''unknown recipient address'' \<or> str_contains msg ''(404)''
         then ClaimFailedUnknownRecipient
         else if str_contains msg ''insufficient credits'' \<or> str_contains msg ''(400)''
         then ClaimFailedInsufficient
         else ClaimFailedGeneric msg)"

text \<open>The commit: \<^verbatim>\<open># Persist cooldown only on success\<close>.\<close>

definition claim_commit :: "interaction \<Rightarrow> string \<Rightarrow> int \<Rightarrow> store \<Rightarrow> store" where
  "claim_commit ia to_addr t st =
     (let d2 = load_data st;
          r2 = or_empty (get_user d2 (user_id ia));
          r2a = r2\<lparr>address := Some to_addr\<rparr>;
          r2b = r2a\<lparr>last_claim_at := Some t\<rparr>;
          d2' = set_user d2 (user_id ia) r2b
      in save_data d2' st)"

definition claim_success :: "config \<Rightarrow> string \<Rightarrow> json \<Rightarrow> reply" where
  "claim_success cfg to_addr resp =
     (case dict_get resp ''from_credits'' of
        Inl e \<Rightarrow> HandlerError e
      | Inr from_credits \<Rightarrow>
          (case dict_get resp ''to_credits'' of
             Inl e \<Rightarrow> HandlerError e
           | Inr to_credits \<Rightarrow>
               ClaimSuccessful (FAUCET_AMOUNT cfg) to_addr from_credits to_credits))"

text \<open>
  The request \<open>api_transfer\<close> posts: the bearer secret, \<^verbatim>\<open>to_address\<close> and \<^verbatim>\<open>amount\<close>.
\<close>

record transfer_call =
  bearer :: string
  to_address :: string
  amount :: int

text \<open>
  One \<open>claim\<close> at time \<open>t\<close>. \<open>out\<close> is what the HTTP exchange of its transfer gives;
  \<open>between\<close> is what other requests do to the store while the transfer is awaited
  (\<open>id\<close> when there are none). The result is the answer, the store left behind and the
  transfer request issued, if any.
\<close>

definition claim ::
  "config \<Rightarrow> bot \<Rightarrow> (string \<Rightarrow> exn + json) \<Rightarrow> interaction \<Rightarrow> int \<Rightarrow> http_outcome \<Rightarrow>
   (store \<Rightarrow> store) \<Rightarrow> store \<Rightarrow> reply \<times> store \<times> transfer_call option" where
  "claim cfg b json_loads ia t out between st =
     (case claim_check cfg b ia t st of
        Inl r \<Rightarrow> (r, st, None)
      | Inr to_addr \<Rightarrow>
          (let call = \<lparr>bearer = FAUCET_SENDER_SECRET cfg, to_address = to_addr,
                       amount = FAUCET_AMOUNT cfg\<rparr>;
               st1 = between st
           in (case api_transfer json_loads out of
                 Inl e \<Rightarrow> (claim_failed e, st1, Some call)
               | Inr resp \<Rightarrow>
                   (claim_success cfg to_addr resp, claim_commit ia to_addr t st1,
                    Some call))))"

definition whoami :: "config \<Rightarrow> bot \<Rightarrow> interaction \<Rightarrow> int \<Rightarrow> store \<Rightarrow> reply" where
  "whoami cfg b ia t st =
     (if \<not> channel_allowed cfg ia then ChannelNotAllowed
      else
        let d = load_data st;
            r = get_user d (user_id ia)
        in case r of
             None \<Rightarrow> NotRegistered
           | Some rc \<Rightarrow>
               (case address rc of
                  None \<Rightarrow> NotRegistered
                | Some addr \<Rightarrow>
                    if addr = [] then NotRegistered
                    else
                      let last_claim = last_claim_of rc;
                          cd = (if last_claim = 0 \<or> t \<ge> last_claim + COOLDOWN_SECONDS cfg
                                then Ready
                                else
                                  let rem = (last_claim + COOLDOWN_SECONDS cfg) - t
                                  in Remaining rem (rem div 3600) ((rem mod 3600) div 60));
                          sender_info = (if truthy (sender_address b) then sender_address b
                                         else None)
                      in WhoAmI addr cd sender_info))"

text \<open>The three answers of the \<^verbatim>\<open>except\<close> branch of \<open>claim\<close>.\<close>

fun is_claim_failed :: "reply \<Rightarrow> bool" where
  "is_claim_failed ClaimFailedUnknownRecipient = True"
| "is_claim_failed ClaimFailedInsufficient = True"
| "is_claim_failed (ClaimFailedGeneric msg) = True"
| "is_claim_failed r = False"

section \<open>Example values\<close>

text \<open>
  A configuration, a resolved sender address, a requester and stores with one entry,
  used where a statement is instantiated at concrete inputs. \<open>loads_ok\<close> parses every
  body as the balances object of a successful transfer.
\<close>

definition operator_addr :: string where
  "operator_addr = ''aaaaaaaaaaaaaaaaaaaaaaaaaaaaaaaaaaaaaaaa''"

definition user_addr :: string where
  "user_addr = ''bbbbbbbbbbbbbbbbbbbbbbbbbbbbbbbbbbbbbbbb''"

definition other_addr :: string where
  "other_addr = ''cccccccccccccccccccccccccccccccccccccccc''"

definition cfg0 :: config where
  "cfg0 = \<lparr>DISCORD_TOKEN = ''token'', FAUCET_API_BASE = ''http://127.0.0.1:8000'',
           FAUCET_SENDER_SECRET = ''secret'', FAUCET_AMOUNT = 5, COOLDOWN_SECONDS = 86400,
           DATA_FILE = ''discord_pow_faucet.json'', ALLOWED_CHANNEL_ID = Unrestricted\<rparr>"

definition bot0 :: bot where
  "bot0 = \<lparr>sender_address = Some operator_addr\<rparr>"

definition alice :: interaction where
  "alice = \<lparr>channel_id = Some 1, user_id = 7\<rparr>"

definition store_with :: "user_rec \<Rightarrow> store" where
  "store_with r = Some (Some (Map.empty(7 \<mapsto> r)))"

definition rec_at :: "int \<Rightarrow> user_rec" where
  "rec_at T = \<lparr>address = Some user_addr, registered_at = Some 0, last_claim_at = Some T,
              other = []\<rparr>"

definition loads_ok :: "string \<Rightarrow> exn + json" where
  "loads_ok txt = Inr (JObj [(''from_credits'', JInt 95), (''to_credits'', JInt 5)])"

definition loads_list :: "string \<Rightarrow> exn + json" where
  "loads_list txt = Inr (JList [JInt 1, JInt 2])"

definition cfg_no_secret :: config where
  "cfg_no_secret = cfg0\<lparr>FAUCET_SENDER_SECRET := []\<rparr>"

definition cfg_no_token :: config where
  "cfg_no_token = cfg0\<lparr>DISCORD_TOKEN := []\<rparr>"

definition loads_me :: "string \<Rightarrow> exn + json" where
  "loads_me txt = Inr (JObj [(''account_id'', JStr operator_addr)])"

definition operator_rec :: user_rec where
  "operator_rec = \<lparr>address = Some operator_addr, registered_at = Some 0,
                   last_claim_at = Some 0, other = []\<rparr>"

definition reregister :: "store \<Rightarrow> store" where
  "reregister s = snd (register_address cfg0 bot0 alice other_addr 150 s)"

definition second_claim :: "store \<Rightarrow> store" where
  "second_claim s = fst (snd (claim cfg0 bot0 loads_ok alice 101 (HttpResponse 200 []) id s))"

definition fs0 :: fs where
  "fs0 = Map.empty(''discord_pow_faucet.json'' \<mapsto> ''old'')"

section \<open>The address validator\<close>

lemma hex_chars_all:
  "list_all (\<lambda>c. \<not> is_space c \<and> is_hex (lower_char c) \<and> lower_char (lower_char c) = lower_char c)
     ''0123456789abcdefABCDEF''"
  by code_simp

lemma is_hex_cases:
  "is_hex c \<Longrightarrow> \<not> is_space c \<and> is_hex (lower_char c) \<and> lower_char (lower_char c) = lower_char c"
  using hex_chars_all unfolding is_hex_def list_all_iff by blast

lemma dropWhile_hd_id: "xs = [] \<or> \<not> P (hd xs) \<Longrightarrow> dropWhile P xs = xs"
  by (cases xs) auto

lemma str_strip_id:
  assumes "xs = [] \<or> (\<not> is_space (hd xs) \<and> \<not> is_space (last xs))"
  shows "str_strip xs = xs"
proof (cases "xs = []")
  case True
  then show ?thesis by (simp add: str_strip_def)
next
  case False
  with assms have h: "\<not> is_space (hd xs)" and l: "\<not> is_space (last xs)" by auto
  have 1: "dropWhile is_space xs = xs" using h by (simp add: dropWhile_hd_id)
  have "hd (rev xs) = last xs" using False by (simp add: hd_rev)
  then have 2: "dropWhile is_space (rev xs) = rev xs" using l by (simp add: dropWhile_hd_id)
  show ?thesis by (simp add: str_strip_def 1 2)
qed

lemma dropWhile_hd_not: "dropWhile P xs \<noteq> [] \<Longrightarrow> \<not> P (hd (dropWhile P xs))"
  by (simp add: hd_dropWhile)

lemma str_strip_last:
  assumes "str_strip xs \<noteq> []"
  shows "\<not> is_space (last (str_strip xs))"
proof -
  let ?d = "dropWhile is_space (rev (dropWhile is_space xs))"
  have ne: "?d \<noteq> []" using assms by (simp add: str_strip_def)
  then have "\<not> is_space (hd ?d)" by (rule dropWhile_hd_not)
  moreover have "last (rev ?d) = hd ?d" using ne by (simp add: last_rev)
  ultimately show ?thesis by (simp add: str_strip_def)
qed

lemma ADDR_RE_match_strip:
  "ADDR_RE_match (str_strip x) \<longleftrightarrow> length (str_strip x) = 40 \<and> list_all is_hex (str_strip x)"
proof
  assume m: "ADDR_RE_match (str_strip x)"
  let ?a = "str_strip x"
  have len: "40 \<le> length ?a" and hex: "list_all is_hex (take 40 ?a)"
    and tl: "drop 40 ?a = [] \<or> drop 40 ?a = [char_of (10::nat)]"
    using m by (auto simp: ADDR_RE_match_def)
  have "drop 40 ?a = []"
  proof (rule ccontr)
    assume "drop 40 ?a \<noteq> []"
    with tl have d: "drop 40 ?a = [char_of (10::nat)]" by simp
    then have ne: "?a \<noteq> []" by auto
    have "last ?a = last (drop 40 ?a)" using d by (metis last_drop drop_eq_Nil not_le list.distinct(1))
    then have "last ?a = char_of (10::nat)" using d by simp
    moreover have "is_space (char_of (10::nat))" by (simp add: is_space_def)
    ultimately show False using str_strip_last[OF ne] by simp
  qed
  then have "length ?a \<le> 40" by simp
  with len have l: "length ?a = 40" by simp
  then show "length ?a = 40 \<and> list_all is_hex ?a" using hex by simp
next
  assume "length (str_strip x) = 40 \<and> list_all is_hex (str_strip x)"
  then show "ADDR_RE_match (str_strip x)" by (simp add: ADDR_RE_match_def)
qed

lemma hex_strip_id:
  assumes "length x = 40" "list_all is_hex x"
  shows "str_strip x = x"
proof -
  have ne: "x \<noteq> []" using assms by auto
  then have "hd x \<in> set x" "last x \<in> set x" by simp_all
  then have "is_hex (hd x)" "is_hex (last x)" using assms(2) by (simp_all add: list_all_iff)
  then show ?thesis using is_hex_cases by (intro str_strip_id) blast
qed

lemma lower_hex:
  "list_all is_hex x \<Longrightarrow> list_all is_hex (str_lower x) \<and> str_lower (str_lower x) = str_lower x"
  by (induction x) (simp_all add: str_lower_def is_hex_cases)

lemma normalize_addr_char:
  "normalize_addr x =
     (if length (str_strip x) = 40 \<and> list_all is_hex (str_strip x)
      then Inr (str_lower (str_strip x)) else Inl (ValueError ''bad address format''))"
  by (simp add: normalize_addr_def Let_def ADDR_RE_match_strip)

text \<open>
  C6, as stated, fails: \<open>normalize_addr\<close> strips surrounding whitespace before it
  matches, so an input of 41 characters (a space, then forty hex digits) is accepted.
\<close>

theorem normalize_addr_spaces_counterexample:
  "\<not> (length '' AAAAAAAAAAAAAAAAAAAAaaaaaaaaaaaaaaaaaaaa'' = 40 \<and> list_all is_hex '' AAAAAAAAAAAAAAAAAAAAaaaaaaaaaaaaaaaaaaaa'')
   \<and> normalize_addr '' AAAAAAAAAAAAAAAAAAAAaaaaaaaaaaaaaaaaaaaa'' = Inr ''aaaaaaaaaaaaaaaaaaaaaaaaaaaaaaaaaaaaaaaa''"
  by code_simp

text \<open>
  C6 (amended): \<open>normalize_addr\<close> fails with \<open>ValueError\<close> (the \<open>InvalidFormat\<close> answer
  of \<open>register_address\<close>) for every input whose whitespace-stripped form is not exactly
  forty characters of the hex alphabet, so also for the empty and the whitespace-only
  input; for an input whose stripped form is forty hex characters in any case mix it
  returns the lowercase of the stripped form, which for a forty-character hex input is
  the lowercase of the input; and it is idempotent on what it accepts.
\<close>

theorem normalize_addr_stripped:
  "(\<not> (length (str_strip x) = 40 \<and> list_all is_hex (str_strip x)) \<longrightarrow>
      normalize_addr x = Inl (ValueError ''bad address format''))
   \<and> (length (str_strip x) = 40 \<and> list_all is_hex (str_strip x) \<longrightarrow>
      normalize_addr x = Inr (str_lower (str_strip x)))
   \<and> (length x = 40 \<and> list_all is_hex x \<longrightarrow> normalize_addr x = Inr (str_lower x))
   \<and> (\<forall>y. normalize_addr x = Inr y \<longrightarrow> normalize_addr y = Inr y)"
proof (intro conjI impI allI)
  assume "\<not> (length (str_strip x) = 40 \<and> list_all is_hex (str_strip x))"
  then show "normalize_addr x = Inl (ValueError ''bad address format'')"
    by (simp add: normalize_addr_char)
next
  assume "length (str_strip x) = 40 \<and> list_all is_hex (str_strip x)"
  then show "normalize_addr x = Inr (str_lower (str_strip x))"
    by (simp add: normalize_addr_char)
next
  assume h: "length x = 40 \<and> list_all is_hex x"
  then have "str_strip x = x" by (simp add: hex_strip_id)
  with h show "normalize_addr x = Inr (str_lower x)"
    by (simp add: normalize_addr_char)
next
  fix y
  assume n: "normalize_addr x = Inr y"
  let ?a = "str_strip x"
  from n have a: "length ?a = 40" "list_all is_hex ?a" and y: "y = str_lower ?a"
    by (auto simp: normalize_addr_char split: if_splits)
  have ly: "length y = 40" using a y by (simp add: str_lower_def)
  have hy: "list_all is_hex y" and low: "str_lower y = y"
    using lower_hex[OF a(2)] y by simp_all
  have "str_strip y = y" using ly hy by (rule hex_strip_id)
  then show "normalize_addr y = Inr y"
    using ly hy low by (simp add: normalize_addr_char)
qed

theorem normalize_addr_stripped_witness:
  "length (str_strip '' 0123456789abcdefABCDEF0123456789abcdefAB  '') = 40
   \<and> list_all is_hex (str_strip '' 0123456789abcdefABCDEF0123456789abcdefAB  '')
   \<and> normalize_addr '' 0123456789abcdefABCDEF0123456789abcdefAB  '' = Inr ''0123456789abcdefabcdef0123456789abcdefab''
   \<and> normalize_addr ''0123456789abcdefabcdef0123456789abcdefab'' = Inr ''0123456789abcdefabcdef0123456789abcdefab''"
proof -
  have h: "length (str_strip '' 0123456789abcdefABCDEF0123456789abcdefAB  '') = 40 \<and> list_all is_hex (str_strip '' 0123456789abcdefABCDEF0123456789abcdefAB  '')"
    by code_simp
  have l: "str_lower (str_strip '' 0123456789abcdefABCDEF0123456789abcdefAB  '') = ''0123456789abcdefabcdef0123456789abcdefab''"
    by code_simp
  from normalize_addr_stripped [of "'' 0123456789abcdefABCDEF0123456789abcdefAB  ''"] h l
  have n: "normalize_addr '' 0123456789abcdefABCDEF0123456789abcdefAB  '' = Inr ''0123456789abcdefabcdef0123456789abcdefab''"
    and i: "\<forall>y. normalize_addr '' 0123456789abcdefABCDEF0123456789abcdefAB  '' = Inr y \<longrightarrow> normalize_addr y = Inr y"
    by simp_all
  from i n have "normalize_addr ''0123456789abcdefabcdef0123456789abcdefab'' = Inr ''0123456789abcdefabcdef0123456789abcdefab''" by blast
  with h n show ?thesis by blast
qed

section \<open>The commands, step by step\<close>

lemma api_transfer_fails_iff:
  "isl (api_transfer jl out) \<longleftrightarrow>
     (case out of HttpRaised e \<Rightarrow> True | HttpResponse status txt \<Rightarrow> status \<noteq> 200 \<or> isl (jl txt))"
  by (simp add: api_transfer_def split: http_outcome.splits)

lemma is_claim_failed_claim_failed: "is_claim_failed (claim_failed e)"
  by (simp add: claim_failed_def Let_def)

lemma get_user_claim_commit:
  "get_user (load_data (claim_commit ia a t st)) u =
     (if u = user_id ia
      then Some ((or_empty (get_user (load_data st) (user_id ia)))
                   \<lparr>address := Some a, last_claim_at := Some t\<rparr>)
      else get_user (load_data st) u)"
  by (simp add: claim_commit_def Let_def load_data_def save_data_def get_user_def set_user_def
      split: option.splits)

lemma claim_check_registered:
  assumes "channel_allowed cfg ia" "FAUCET_SENDER_SECRET cfg \<noteq> []"
    "get_user (load_data st) (user_id ia) = Some rc" "address rc = Some a" "a \<noteq> []"
    "\<not> is_sender b a"
  shows "claim_check cfg b ia t st =
     (if last_claim_of rc \<noteq> 0 \<and> t < last_claim_of rc + COOLDOWN_SECONDS cfg
      then Inl (CooldownActive (last_claim_of rc + COOLDOWN_SECONDS cfg - t)
                 ((last_claim_of rc + COOLDOWN_SECONDS cfg - t) div 3600)
                 (((last_claim_of rc + COOLDOWN_SECONDS cfg - t) mod 3600) div 60))
      else Inr a)"
  using assms by (simp add: claim_check_def Let_def)

lemma whoami_registered:
  assumes "channel_allowed cfg ia"
    "get_user (load_data st) (user_id ia) = Some rc" "address rc = Some a" "a \<noteq> []"
  shows "whoami cfg b ia t st =
     WhoAmI a
       (if last_claim_of rc = 0 \<or> t \<ge> last_claim_of rc + COOLDOWN_SECONDS cfg then Ready
        else Remaining (last_claim_of rc + COOLDOWN_SECONDS cfg - t)
                 ((last_claim_of rc + COOLDOWN_SECONDS cfg - t) div 3600)
                 (((last_claim_of rc + COOLDOWN_SECONDS cfg - t) mod 3600) div 60))
       (if truthy (sender_address b) then sender_address b else None)"
  using assms by (simp add: whoami_def Let_def)

lemma ADDR_RE_match_nonempty: "ADDR_RE_match s \<Longrightarrow> str_lower s \<noteq> []"
  by (auto simp: ADDR_RE_match_def str_lower_def)

lemma setup_hook_sender:
  assumes "sender_address (setup_hook cfg jl me_out) = Some a"
  shows "FAUCET_SENDER_SECRET cfg \<noteq> [] \<and> a \<noteq> []"
  using assms
  by (auto simp: setup_hook_def ADDR_RE_match_nonempty
      split: if_splits sum.splits option.splits json.splits)

lemma setup_hook_no_secret:
  "FAUCET_SENDER_SECRET cfg = [] \<Longrightarrow> sender_address (setup_hook cfg jl me_out) = None"
  by (simp add: setup_hook_def)

lemma get_user_register:
  assumes "channel_allowed cfg ia" "normalize_addr raw = Inr a" "\<not> is_sender b a"
  shows "fst (register_address cfg b ia raw t st) = Registered a"
    and "get_user (load_data (snd (register_address cfg b ia raw t st))) u =
     (if u = user_id ia
      then Some ((or_empty (get_user (load_data st) (user_id ia)))
                   \<lparr>address := Some a, registered_at := Some t,
                    last_claim_at := Some (last_claim_of (or_empty (get_user (load_data st) (user_id ia))))\<rparr>)
      else get_user (load_data st) u)"
  using assms
  by (simp_all add: register_address_def Let_def load_data_def save_data_def get_user_def
      set_user_def last_claim_of_def split: option.splits)

section \<open>The example values\<close>

lemmas example_defs = cfg0_def bot0_def alice_def store_with_def rec_at_def operator_addr_def
  user_addr_def other_addr_def

lemma claim_check_example:
  "claim_check cfg0 bot0 alice t (store_with (rec_at T)) =
     (if T \<noteq> 0 \<and> t < T + 86400
      then Inl (CooldownActive (T + 86400 - t) ((T + 86400 - t) div 3600)
                  (((T + 86400 - t) mod 3600) div 60))
      else Inr user_addr)"
  by (simp add: claim_check_def Let_def channel_allowed_def load_data_def get_user_def
      is_sender_def truthy_def last_claim_of_def example_defs)

lemma claim_check_example': "claim_check cfg0 bot0 alice 100 (store_with (rec_at 0)) = Inr user_addr"
  by (simp add: claim_check_example)

lemma cfg0_fields: "FAUCET_AMOUNT cfg0 = 5" "FAUCET_SENDER_SECRET cfg0 = ''secret''"
  by (simp_all add: cfg0_def)

lemma api_transfer_ok_example: "api_transfer loads_ok (HttpResponse 200 []) = Inr (JObj [(''from_credits'', JInt 95), (''to_credits'', JInt 5)])"
  by (simp add: api_transfer_def loads_ok_def)

lemma get_user_store_with: "get_user (load_data (store_with r)) u = (if u = 7 then Some r else None)"
  by (simp add: store_with_def load_data_def get_user_def)

lemma normalize_examples:
  "normalize_addr operator_addr = Inr operator_addr"
  "normalize_addr user_addr = Inr user_addr"
  "normalize_addr other_addr = Inr other_addr"
  by code_simp+

lemma setup_hook_example: "setup_hook cfg0 loads_me (HttpResponse 200 []) = bot0"
  by code_simp

lemma is_sender_examples:
  "\<not> is_sender bot0 user_addr" "\<not> is_sender bot0 other_addr"
  by (simp_all add: is_sender_def truthy_def example_defs)

lemma channel_allowed_examples:
  "channel_allowed cfg0 alice" "channel_allowed cfg_no_secret alice"
  by (simp_all add: channel_allowed_def cfg_no_secret_def example_defs)

lemma reregister_example:
  "get_user (load_data (reregister st)) u =
     (if u = 7
      then Some ((or_empty (get_user (load_data st) 7))
                   \<lparr>address := Some other_addr, registered_at := Some 150,
                    last_claim_at := Some (last_claim_of (or_empty (get_user (load_data st) 7)))\<rparr>)
      else get_user (load_data st) u)"
  using get_user_register(2) [OF channel_allowed_examples(1) normalize_examples(3)
      is_sender_examples(2), where u = u and t = 150 and st = st]
  by (simp add: reregister_def alice_def)

section \<open>Registration\<close>

text \<open>
  C5: after two registrations by one requester with valid addresses (different or not),
  the entry holds the second address, \<open>registered_at\<close> is the time of the second
  registration, and \<open>last_claim_at\<close> is the value read before either registration (the
  stored one when the key was there, \<open>0\<close> otherwise); the keys the program does not
  know and the other requesters' entries are unchanged. A first registration creates
  the entry with \<open>last_claim_at = 0\<close>.
\<close>

theorem reregistration_keeps_last_claim:
  assumes "channel_allowed cfg ia"
    and "normalize_addr raw1 = Inr a1" and "\<not> is_sender b a1"
    and "normalize_addr raw2 = Inr a2" and "\<not> is_sender b a2"
    and "st1 = snd (register_address cfg b ia raw1 t1 st)"
    and "st2 = snd (register_address cfg b ia raw2 t2 st1)"
    and "r0 = or_empty (get_user (load_data st) (user_id ia))"
  shows "get_user (load_data st2) (user_id ia)
           = Some (r0\<lparr>address := Some a2, registered_at := Some t2,
                      last_claim_at := Some (last_claim_of r0)\<rparr>)
    \<and> (\<forall>v. last_claim_at r0 = Some v \<longrightarrow>
          map_option last_claim_at (get_user (load_data st2) (user_id ia)) = Some (Some v))
    \<and> (get_user (load_data st) (user_id ia) = None \<longrightarrow>
          get_user (load_data st1) (user_id ia)
            = Some \<lparr>address = Some a1, registered_at = Some t1, last_claim_at = Some 0,
                    other = []\<rparr>)
    \<and> (\<forall>u. u \<noteq> user_id ia \<longrightarrow> get_user (load_data st2) u = get_user (load_data st) u)"
proof -
  note g1 = get_user_register(2) [OF assms(1,2,3)]
  note g2 = get_user_register(2) [OF assms(1,4,5)]
  have a: "get_user (load_data st1) (user_id ia)
      = Some (r0\<lparr>address := Some a1, registered_at := Some t1,
                  last_claim_at := Some (last_claim_of r0)\<rparr>)"
    unfolding assms(6) assms(8) by (simp add: g1)
  have b: "get_user (load_data st2) (user_id ia)
           = Some (r0\<lparr>address := Some a2, registered_at := Some t2,
                      last_claim_at := Some (last_claim_of r0)\<rparr>)"
    unfolding assms(7) by (simp add: g2 a or_empty_def last_claim_of_def)
  have c: "\<forall>v. last_claim_at r0 = Some v \<longrightarrow>
          map_option last_claim_at (get_user (load_data st2) (user_id ia)) = Some (Some v)"
    by (simp add: b last_claim_of_def)
  have d: "get_user (load_data st) (user_id ia) = None \<longrightarrow>
          get_user (load_data st1) (user_id ia)
            = Some \<lparr>address = Some a1, registered_at = Some t1, last_claim_at = Some 0,
                    other = []\<rparr>"
    using a assms(8) by (simp add: or_empty_def empty_rec_def last_claim_of_def)
  have e: "\<forall>u. u \<noteq> user_id ia \<longrightarrow> get_user (load_data st2) u = get_user (load_data st) u"
    unfolding assms(7) assms(6) by (simp add: g1 g2)
  from b c d e show ?thesis by blast
qed

theorem reregistration_keeps_last_claim_witness:
  "channel_allowed cfg0 alice
   \<and> normalize_addr user_addr = Inr user_addr \<and> \<not> is_sender bot0 user_addr
   \<and> normalize_addr other_addr = Inr other_addr \<and> \<not> is_sender bot0 other_addr
   \<and> get_user (load_data (snd (register_address cfg0 bot0 alice other_addr 60
        (snd (register_address cfg0 bot0 alice user_addr 50 (store_with (rec_at 1000)))))))
        (user_id alice)
       = Some \<lparr>address = Some other_addr, registered_at = Some 60, last_claim_at = Some 1000,
               other = []\<rparr>
   \<and> get_user (load_data (snd (register_address cfg0 bot0 alice user_addr 50 None)))
        (user_id alice)
       = Some \<lparr>address = Some user_addr, registered_at = Some 50, last_claim_at = Some 0,
               other = []\<rparr>"
proof -
  note h = channel_allowed_examples(1) normalize_examples(2) is_sender_examples(1)
    normalize_examples(3) is_sender_examples(2)
  have r0: "or_empty (get_user (load_data (store_with (rec_at 1000))) (user_id alice))
      = rec_at 1000"
    by (simp add: get_user_store_with alice_def or_empty_def)
  from reregistration_keeps_last_claim [OF h refl refl refl, of 60 50 "store_with (rec_at 1000)"]
  have "get_user (load_data (snd (register_address cfg0 bot0 alice other_addr 60
        (snd (register_address cfg0 bot0 alice user_addr 50 (store_with (rec_at 1000)))))))
        (user_id alice)
       = Some ((or_empty (get_user (load_data (store_with (rec_at 1000))) (user_id alice)))
           \<lparr>address := Some other_addr, registered_at := Some 60,
            last_claim_at := Some (last_claim_of
              (or_empty (get_user (load_data (store_with (rec_at 1000))) (user_id alice))))\<rparr>)"
    by blast
  then have 1: "get_user (load_data (snd (register_address cfg0 bot0 alice other_addr 60
        (snd (register_address cfg0 bot0 alice user_addr 50 (store_with (rec_at 1000)))))))
        (user_id alice)
       = Some \<lparr>address = Some other_addr, registered_at = Some 60, last_claim_at = Some 1000,
               other = []\<rparr>"
    unfolding r0 by (simp add: rec_at_def last_claim_of_def)
  have n: "get_user (load_data None) (user_id alice) = None"
    by (simp add: load_data_def get_user_def)
  from reregistration_keeps_last_claim [OF h refl refl refl, of 60 50 None] n
  have 2: "get_user (load_data (snd (register_address cfg0 bot0 alice user_addr 50 None)))
        (user_id alice)
       = Some \<lparr>address = Some user_addr, registered_at = Some 50, last_claim_at = Some 0,
               other = []\<rparr>"
    by blast
  from h 1 2 show ?thesis by blast
qed

text \<open>
  C4: when \<open>setup_hook\<close> has resolved the sender address \<open>op\<close>, \<open>register_address\<close>
  with an input that normalizes to \<open>op\<close> answers \<open>SelfAddressRejected\<close> and leaves the
  store alone, and \<open>claim\<close> for a requester whose registered address is \<open>op\<close> answers
  \<open>SelfAddressRejected\<close>, leaves the store alone and issues no transfer. This also holds
  when the address was registered while the sender address was still unknown: that
  registration succeeds, and a \<open>claim\<close> on the store it leaves is rejected.
\<close>

theorem self_address_rejected:
  assumes "b = setup_hook cfg jl me_out" and "sender_address b = Some op"
    and "channel_allowed cfg ia"
  shows "(normalize_addr raw = Inr op \<longrightarrow>
            register_address cfg b ia raw t st = (SelfAddressRejected, st))
    \<and> (\<forall>rc. get_user (load_data st) (user_id ia) = Some rc \<and> address rc = Some op \<longrightarrow>
            claim cfg b jl' ia t out between st = (SelfAddressRejected, st, None))
    \<and> (normalize_addr raw = Inr op \<longrightarrow>
          fst (register_address cfg \<lparr>sender_address = None\<rparr> ia raw t_reg st) = Registered op
          \<and> claim cfg b jl' ia t out between
               (snd (register_address cfg \<lparr>sender_address = None\<rparr> ia raw t_reg st))
             = (SelfAddressRejected,
                snd (register_address cfg \<lparr>sender_address = None\<rparr> ia raw t_reg st), None))"
proof -
  from setup_hook_sender assms(1,2)
  have sec: "FAUCET_SENDER_SECRET cfg \<noteq> []" and ne: "op \<noteq> []" by auto
  have sn: "is_sender b op" using assms(2) ne by (simp add: is_sender_def truthy_def)
  have 1: "normalize_addr raw = Inr op \<longrightarrow>
            register_address cfg b ia raw t st = (SelfAddressRejected, st)"
    using assms(3) sn by (simp add: register_address_def)
  have cl: "claim cfg b jl' ia t out between s = (SelfAddressRejected, s, None)"
    if "get_user (load_data s) (user_id ia) = Some rc" "address rc = Some op" for s rc
    using that assms(3) sec ne sn by (simp add: claim_def claim_check_def Let_def)
  have 2: "\<forall>rc. get_user (load_data st) (user_id ia) = Some rc \<and> address rc = Some op \<longrightarrow>
            claim cfg b jl' ia t out between st = (SelfAddressRejected, st, None)"
    using cl by blast
  have 3: "normalize_addr raw = Inr op \<longrightarrow>
          fst (register_address cfg \<lparr>sender_address = None\<rparr> ia raw t_reg st) = Registered op
          \<and> claim cfg b jl' ia t out between
               (snd (register_address cfg \<lparr>sender_address = None\<rparr> ia raw t_reg st))
             = (SelfAddressRejected,
                snd (register_address cfg \<lparr>sender_address = None\<rparr> ia raw t_reg st), None)"
  proof
    assume n: "normalize_addr raw = Inr op"
    have ns: "\<not> is_sender \<lparr>sender_address = None\<rparr> op" by (simp add: is_sender_def truthy_def)
    note g = get_user_register [OF assms(3) n ns]
    show "fst (register_address cfg \<lparr>sender_address = None\<rparr> ia raw t_reg st) = Registered op
          \<and> claim cfg b jl' ia t out between
               (snd (register_address cfg \<lparr>sender_address = None\<rparr> ia raw t_reg st))
             = (SelfAddressRejected,
                snd (register_address cfg \<lparr>sender_address = None\<rparr> ia raw t_reg st), None)"
      by (rule conjI, rule g(1), rule cl, subst g(2), simp, simp)
  qed
  from 1 2 3 show ?thesis by blast
qed

theorem self_address_rejected_witness:
  "bot0 = setup_hook cfg0 loads_me (HttpResponse 200 [])
   \<and> sender_address bot0 = Some operator_addr
   \<and> channel_allowed cfg0 alice
   \<and> normalize_addr operator_addr = Inr operator_addr
   \<and> register_address cfg0 bot0 alice operator_addr 5 None = (SelfAddressRejected, None)
   \<and> get_user (load_data (store_with operator_rec)) (user_id alice) = Some operator_rec
   \<and> address operator_rec = Some operator_addr
   \<and> claim cfg0 bot0 loads_ok alice 100 (HttpResponse 200 []) id (store_with operator_rec)
       = (SelfAddressRejected, store_with operator_rec, None)
   \<and> fst (register_address cfg0 \<lparr>sender_address = None\<rparr> alice operator_addr 5 None)
       = Registered operator_addr
   \<and> fst (claim cfg0 bot0 loads_ok alice 100 (HttpResponse 200 []) id
         (snd (register_address cfg0 \<lparr>sender_address = None\<rparr> alice operator_addr 5 None)))
       = SelfAddressRejected"
proof -
  have h: "bot0 = setup_hook cfg0 loads_me (HttpResponse 200 [])"
    "sender_address bot0 = Some operator_addr" "channel_allowed cfg0 alice"
    by (simp_all add: setup_hook_example channel_allowed_examples bot0_def)
  have r: "get_user (load_data (store_with operator_rec)) (user_id alice) = Some operator_rec"
    "address operator_rec = Some operator_addr"
    by (simp_all add: get_user_store_with alice_def operator_rec_def)
  from self_address_rejected [OF h, where raw = operator_addr and t = 5 and st = None]
    normalize_examples(1)
  have 1: "register_address cfg0 bot0 alice operator_addr 5 None = (SelfAddressRejected, None)"
    by blast
  from self_address_rejected [OF h, where st = "store_with operator_rec" and jl' = loads_ok
      and t = 100 and out = "HttpResponse 200 []" and between = id] r
  have 2: "claim cfg0 bot0 loads_ok alice 100 (HttpResponse 200 []) id (store_with operator_rec)
       = (SelfAddressRejected, store_with operator_rec, None)"
    by blast
  from self_address_rejected [OF h, where raw = operator_addr and t_reg = 5 and st = None
      and jl' = loads_ok and t = 100 and out = "HttpResponse 200 []" and between = id]
    normalize_examples(1)
  have 3: "fst (register_address cfg0 \<lparr>sender_address = None\<rparr> alice operator_addr 5 None)
       = Registered operator_addr"
    and 4: "fst (claim cfg0 bot0 loads_ok alice 100 (HttpResponse 200 []) id
         (snd (register_address cfg0 \<lparr>sender_address = None\<rparr> alice operator_addr 5 None)))
       = SelfAddressRejected"
    by simp_all
  from h r 1 2 3 4 normalize_examples(1) show ?thesis by blast
qed

section \<open>Cooldown\<close>



text \<open>
  C10: for a registered requester and every time \<open>t\<close>, \<open>whoami\<close> reports \<open>Ready\<close>
  exactly when \<open>claim_check\<close> at the same time passes the cooldown check, which is
  exactly when \<open>last_claim_at = 0\<close> or \<open>t \<ge> last_claim_at + COOLDOWN_SECONDS\<close>; otherwise
  both report the same remaining time \<open>last_claim_at + COOLDOWN_SECONDS - t\<close> (and the
  same hours and minutes).
\<close>

theorem whoami_agrees_with_claim:
  assumes "channel_allowed cfg ia" and "FAUCET_SENDER_SECRET cfg \<noteq> []"
    and "get_user (load_data st) (user_id ia) = Some rc"
    and "address rc = Some a" and "a \<noteq> []" and "\<not> is_sender b a"
  shows "((\<exists>si. whoami cfg b ia t st = WhoAmI a Ready si) \<longleftrightarrow> claim_check cfg b ia t st = Inr a)
    \<and> ((\<exists>si. whoami cfg b ia t st = WhoAmI a Ready si) \<longleftrightarrow>
         (last_claim_of rc = 0 \<or> t \<ge> last_claim_of rc + COOLDOWN_SECONDS cfg))
    \<and> (\<forall>rem h m. (\<exists>si. whoami cfg b ia t st = WhoAmI a (Remaining rem h m) si) \<longleftrightarrow>
         claim_check cfg b ia t st = Inl (CooldownActive rem h m))
    \<and> (\<forall>rem h m. claim_check cfg b ia t st = Inl (CooldownActive rem h m) \<longrightarrow>
         rem = last_claim_of rc + COOLDOWN_SECONDS cfg - t)"
  unfolding claim_check_registered [OF assms] whoami_registered [OF assms(1,3,4,5)]
  by auto

theorem whoami_agrees_with_claim_witness:
  "channel_allowed cfg0 alice \<and> FAUCET_SENDER_SECRET cfg0 \<noteq> []
   \<and> get_user (load_data (store_with (rec_at 1000))) (user_id alice) = Some (rec_at 1000)
   \<and> address (rec_at 1000) = Some user_addr \<and> user_addr \<noteq> [] \<and> \<not> is_sender bot0 user_addr
   \<and> whoami cfg0 bot0 alice 2000 (store_with (rec_at 1000))
       = WhoAmI user_addr (Remaining 85400 23 43) (Some operator_addr)
   \<and> claim_check cfg0 bot0 alice 2000 (store_with (rec_at 1000))
       = Inl (CooldownActive 85400 23 43)
   \<and> whoami cfg0 bot0 alice 90000 (store_with (rec_at 1000))
       = WhoAmI user_addr Ready (Some operator_addr)
   \<and> claim_check cfg0 bot0 alice 90000 (store_with (rec_at 1000)) = Inr user_addr"
proof -
  have h: "channel_allowed cfg0 alice" "FAUCET_SENDER_SECRET cfg0 \<noteq> []"
    "get_user (load_data (store_with (rec_at 1000))) (user_id alice) = Some (rec_at 1000)"
    "address (rec_at 1000) = Some user_addr" "user_addr \<noteq> []" "\<not> is_sender bot0 user_addr"
    by (simp_all add: channel_allowed_def load_data_def get_user_def is_sender_def truthy_def
        example_defs)
  have w1: "whoami cfg0 bot0 alice 2000 (store_with (rec_at 1000))
       = WhoAmI user_addr (Remaining 85400 23 43) (Some operator_addr)"
    and w2: "whoami cfg0 bot0 alice 90000 (store_with (rec_at 1000))
       = WhoAmI user_addr Ready (Some operator_addr)"
    by (simp_all add: whoami_def Let_def channel_allowed_def load_data_def get_user_def
        truthy_def last_claim_of_def example_defs)
  from whoami_agrees_with_claim [OF h, of 2000] w1
  have c1: "claim_check cfg0 bot0 alice 2000 (store_with (rec_at 1000))
       = Inl (CooldownActive 85400 23 43)"
    by blast
  from whoami_agrees_with_claim [OF h, of 90000] w2
  have c2: "claim_check cfg0 bot0 alice 90000 (store_with (rec_at 1000)) = Inr user_addr"
    by blast
  from h w1 w2 c1 c2 show ?thesis by simp
qed

section \<open>Transfer and commit\<close>

text \<open>
  Where \<open>claim\<close> writes. A \<open>claim\<close> that answers before the transfer leaves the store as
  it was and issues no transfer. When it reaches the transfer and \<open>api_transfer\<close> raises
  (a client exception such as a timeout, a status other than 200, a body \<open>json_loads\<close>
  rejects), the answer is one of the three claim-failed answers and \<open>claim\<close> itself
  writes nothing: the store is what the other requests left (\<open>between st\<close>), hence
  exactly \<open>st\<close> when there were none, and a later \<open>claim_check\<close> decides as it would
  have on \<open>st\<close>. When \<open>api_transfer\<close> returns, whatever JSON value the body parsed to,
  the commit runs and the requester's \<open>last_claim_at\<close> is \<open>t\<close>.
\<close>

lemma claim_writes_after_transfer_returns:
  "(\<forall>r. claim_check cfg b ia t st = Inl r \<longrightarrow>
       claim cfg b jl ia t out between st = (r, st, None))
   \<and> (\<forall>a. claim_check cfg b ia t st = Inr a \<and> isl (api_transfer jl out) \<longrightarrow>
       is_claim_failed (fst (claim cfg b jl ia t out between st))
       \<and> fst (snd (claim cfg b jl ia t out between st)) = between st
       \<and> fst (snd (claim cfg b jl ia t out id st)) = st
       \<and> claim_check cfg b ia t' (fst (snd (claim cfg b jl ia t out id st)))
           = claim_check cfg b ia t' st)
   \<and> (\<forall>a. claim_check cfg b ia t st = Inr a \<and> \<not> isl (api_transfer jl out) \<longrightarrow>
       map_option last_claim_at
         (get_user (load_data (fst (snd (claim cfg b jl ia t out between st)))) (user_id ia))
         = Some (Some t))"
proof -
  have 1: "\<forall>r. claim_check cfg b ia t st = Inl r \<longrightarrow>
       claim cfg b jl ia t out between st = (r, st, None)"
    by (simp add: claim_def)
  have 2: "\<forall>a. claim_check cfg b ia t st = Inr a \<and> isl (api_transfer jl out) \<longrightarrow>
       is_claim_failed (fst (claim cfg b jl ia t out between st))
       \<and> fst (snd (claim cfg b jl ia t out between st)) = between st
       \<and> fst (snd (claim cfg b jl ia t out id st)) = st
       \<and> claim_check cfg b ia t' (fst (snd (claim cfg b jl ia t out id st)))
           = claim_check cfg b ia t' st"
  proof (intro allI impI)
    fix a assume h: "claim_check cfg b ia t st = Inr a \<and> isl (api_transfer jl out)"
    then obtain e where e: "api_transfer jl out = Inl e" by (auto simp: isl_def)
    have c: "\<And>bt. claim cfg b jl ia t out bt st
        = (claim_failed e, bt st,
           Some \<lparr>bearer = FAUCET_SENDER_SECRET cfg, to_address = a,
                 amount = FAUCET_AMOUNT cfg\<rparr>)"
      using h e by (simp add: claim_def Let_def)
    show "is_claim_failed (fst (claim cfg b jl ia t out between st))
       \<and> fst (snd (claim cfg b jl ia t out between st)) = between st
       \<and> fst (snd (claim cfg b jl ia t out id st)) = st
       \<and> claim_check cfg b ia t' (fst (snd (claim cfg b jl ia t out id st)))
           = claim_check cfg b ia t' st"
      by (simp add: c is_claim_failed_claim_failed)
  qed
  have 3: "\<forall>a. claim_check cfg b ia t st = Inr a \<and> \<not> isl (api_transfer jl out) \<longrightarrow>
       map_option last_claim_at
         (get_user (load_data (fst (snd (claim cfg b jl ia t out between st)))) (user_id ia))
         = Some (Some t)"
  proof (intro allI impI)
    fix a assume h: "claim_check cfg b ia t st = Inr a \<and> \<not> isl (api_transfer jl out)"
    then obtain resp where e: "api_transfer jl out = Inr resp"
      by (cases "api_transfer jl out") auto
    have "fst (snd (claim cfg b jl ia t out between st)) = claim_commit ia a t (between st)"
      using h e by (simp add: claim_def Let_def)
    then show "map_option last_claim_at
         (get_user (load_data (fst (snd (claim cfg b jl ia t out between st)))) (user_id ia))
         = Some (Some t)"
      by (simp add: get_user_claim_commit)
  qed
  from 1 2 3 show ?thesis by blast
qed

text \<open>
  C1 does not hold of \<open>claim\<close>: a malformed response with status 200 whose body is JSON
  but not an object is not caught. \<open>api_transfer\<close> returns the parsed value, so the
  \<^verbatim>\<open>except\<close> branch is not taken and the commit runs; only then \<^verbatim>\<open>resp.get\<close> raises,
  outside the \<^verbatim>\<open>try\<close>. Here a registered requester who never claimed claims at time
  100 and the transfer service answers 200 with the body \<^verbatim>\<open>[1, 2]\<close>: the handler ends in
  \<^verbatim>\<open>AttributeError\<close> (no claim-failed answer), \<open>last_claim_at\<close> has gone from 0 to 100,
  and a claim at time 200, which would have passed on the store as it was, is now held
  back by a new cooldown. (A body that \<open>json_loads\<close> rejects is caught, as
  \<open>claim_writes_after_transfer_returns\<close> shows.)
\<close>

theorem malformed_response_commits:
  "claim_check cfg0 bot0 alice 100 (store_with (rec_at 0)) = Inr user_addr
   \<and> api_transfer loads_list (HttpResponse 200 ''[1, 2]'') = Inr (JList [JInt 1, JInt 2])
   \<and> fst (claim cfg0 bot0 loads_list alice 100 (HttpResponse 200 ''[1, 2]'') id
         (store_with (rec_at 0)))
       = HandlerError (AttributeError
           (quoted ''list'' @ '' object has no attribute '' @ quoted ''get''))
   \<and> \<not> is_claim_failed (fst (claim cfg0 bot0 loads_list alice 100
         (HttpResponse 200 ''[1, 2]'') id (store_with (rec_at 0))))
   \<and> snd (snd (claim cfg0 bot0 loads_list alice 100 (HttpResponse 200 ''[1, 2]'') id
         (store_with (rec_at 0))))
       = Some \<lparr>bearer = ''secret'', to_address = user_addr, amount = 5\<rparr>
   \<and> map_option last_claim_at (get_user (load_data (store_with (rec_at 0))) 7)
       = Some (Some 0)
   \<and> map_option last_claim_at (get_user (load_data (fst (snd
         (claim cfg0 bot0 loads_list alice 100 (HttpResponse 200 ''[1, 2]'') id
            (store_with (rec_at 0)))))) 7)
       = Some (Some 100)
   \<and> claim_check cfg0 bot0 alice 200 (store_with (rec_at 0)) = Inr user_addr
   \<and> claim_check cfg0 bot0 alice 200 (fst (snd
         (claim cfg0 bot0 loads_list alice 100 (HttpResponse 200 ''[1, 2]'') id
            (store_with (rec_at 0)))))
       = Inl (CooldownActive 86300 23 58)"
proof -
  have t: "api_transfer loads_list (HttpResponse 200 ''[1, 2]'') = Inr (JList [JInt 1, JInt 2])"
    by (simp add: api_transfer_def loads_list_def)
  have c: "claim cfg0 bot0 loads_list alice 100 (HttpResponse 200 ''[1, 2]'') id
         (store_with (rec_at 0))
       = (HandlerError (AttributeError
            (quoted ''list'' @ '' object has no attribute '' @ quoted ''get'')),
          claim_commit alice user_addr 100 (store_with (rec_at 0)),
          Some \<lparr>bearer = ''secret'', to_address = user_addr, amount = 5\<rparr>)"
    by (simp add: claim_def claim_check_example t Let_def claim_success_def dict_get_def
        no_attribute_get_def cfg0_fields)
  have g: "get_user (load_data (claim_commit alice user_addr 100 (store_with (rec_at 0))))
         (user_id alice)
       = Some \<lparr>address = Some user_addr, registered_at = Some 0, last_claim_at = Some 100,
               other = []\<rparr>"
    by (simp add: get_user_claim_commit get_user_store_with alice_def or_empty_def rec_at_def)
  have g7: "get_user (load_data (claim_commit alice user_addr 100 (store_with (rec_at 0)))) 7
       = Some \<lparr>address = Some user_addr, registered_at = Some 0, last_claim_at = Some 100,
               other = []\<rparr>"
    using g by (simp add: alice_def)
  have ne: "user_addr \<noteq> []" by (simp add: user_addr_def)
  have k: "claim_check cfg0 bot0 alice 200
         (claim_commit alice user_addr 100 (store_with (rec_at 0)))
       = Inl (CooldownActive 86300 23 58)"
    using claim_check_registered [OF channel_allowed_examples(1) _ g _ ne
        is_sender_examples(1), of 200]
    by (simp add: cfg0_fields last_claim_of_def cfg0_def)
  have f1: "fst (claim cfg0 bot0 loads_list alice 100 (HttpResponse 200 ''[1, 2]'') id
         (store_with (rec_at 0)))
       = HandlerError (AttributeError
           (quoted ''list'' @ '' object has no attribute '' @ quoted ''get''))"
    and f2: "fst (snd (claim cfg0 bot0 loads_list alice 100 (HttpResponse 200 ''[1, 2]'') id
         (store_with (rec_at 0))))
       = claim_commit alice user_addr 100 (store_with (rec_at 0))"
    and f3: "snd (snd (claim cfg0 bot0 loads_list alice 100 (HttpResponse 200 ''[1, 2]'') id
         (store_with (rec_at 0))))
       = Some \<lparr>bearer = ''secret'', to_address = user_addr, amount = 5\<rparr>"
    by (simp_all add: c)
  have nf: "\<not> is_claim_failed (fst (claim cfg0 bot0 loads_list alice 100
         (HttpResponse 200 ''[1, 2]'') id (store_with (rec_at 0))))"
    by (simp add: f1)
  have before: "map_option last_claim_at (get_user (load_data (store_with (rec_at 0))) 7)
       = Some (Some 0)"
    by (simp add: get_user_store_with rec_at_def)
  have after: "map_option last_claim_at (get_user (load_data (fst (snd
         (claim cfg0 bot0 loads_list alice 100 (HttpResponse 200 ''[1, 2]'') id
            (store_with (rec_at 0)))))) 7)
       = Some (Some 100)"
    by (simp add: f2 g7)
  have c100: "claim_check cfg0 bot0 alice 100 (store_with (rec_at 0)) = Inr user_addr"
    and c200: "claim_check cfg0 bot0 alice 200 (store_with (rec_at 0)) = Inr user_addr"
    by (simp_all add: claim_check_example)
  have k': "claim_check cfg0 bot0 alice 200 (fst (snd
         (claim cfg0 bot0 loads_list alice 100 (HttpResponse 200 ''[1, 2]'') id
            (store_with (rec_at 0)))))
       = Inl (CooldownActive 86300 23 58)"
    by (simp add: f2 k)
  from c100 t f1 nf f3 before after c200 k' show ?thesis by blast
qed

text \<open>
  C7, as stated, fails: the commit writes back the address read before the transfer.
  A requester registered with \<open>user_addr\<close> claims at time 100; while the transfer is
  awaited the requester registers \<open>other_addr\<close>; the commit re-reads the entry (which
  holds \<open>other_addr\<close>) and stores \<open>user_addr\<close> again.
\<close>

theorem commit_overwrites_address_counterexample:
  "claim_check cfg0 bot0 alice 100 (store_with (rec_at 0)) = Inr user_addr
   \<and> api_transfer loads_ok (HttpResponse 200 [])
       = Inr (JObj [(''from_credits'', JInt 95), (''to_credits'', JInt 5)])
   \<and> map_option address (get_user (load_data (reregister (store_with (rec_at 0)))) 7)
       = Some (Some other_addr)
   \<and> map_option address (get_user (load_data (fst (snd
         (claim cfg0 bot0 loads_ok alice 100 (HttpResponse 200 []) reregister
            (store_with (rec_at 0)))))) 7)
       = Some (Some user_addr)
   \<and> other_addr \<noteq> user_addr"
proof -
  have "fst (snd (claim cfg0 bot0 loads_ok alice 100 (HttpResponse 200 []) reregister
            (store_with (rec_at 0))))
        = claim_commit alice user_addr 100 (reregister (store_with (rec_at 0)))"
    by (simp add: claim_def claim_check_example' api_transfer_ok_example Let_def)
  then have "map_option address (get_user (load_data (fst (snd
         (claim cfg0 bot0 loads_ok alice 100 (HttpResponse 200 []) reregister
            (store_with (rec_at 0)))))) 7) = Some (Some user_addr)"
    by (simp add: get_user_claim_commit alice_def)
  moreover have "map_option address (get_user (load_data (reregister (store_with (rec_at 0)))) 7)
       = Some (Some other_addr)"
    by (simp add: reregister_example)
  moreover have "other_addr \<noteq> user_addr" by (simp add: other_addr_def user_addr_def)
  ultimately show ?thesis using claim_check_example' api_transfer_ok_example by blast
qed

text \<open>
  C7 (amended): when the transfer succeeds, the commit re-reads the requester's entry as
  the other requests left it and sets \<open>last_claim_at\<close> to the time taken at the
  cooldown check and \<open>address\<close> to the address the transfer was sent to (the one read
  before the transfer); \<open>registered_at\<close> and the keys the program does not know are
  those of the re-read entry, and the other requesters' entries are unchanged.
\<close>

theorem commit_frame:
  assumes "claim_check cfg b ia t st = Inr a" and "api_transfer jl out = Inr resp"
    and "st' = fst (snd (claim cfg b jl ia t out between st))"
    and "r2 = or_empty (get_user (load_data (between st)) (user_id ia))"
  shows "get_user (load_data st') (user_id ia)
           = Some (r2\<lparr>address := Some a, last_claim_at := Some t\<rparr>)
    \<and> map_option registered_at (get_user (load_data st') (user_id ia)) = Some (registered_at r2)
    \<and> map_option other (get_user (load_data st') (user_id ia)) = Some (other r2)
    \<and> (\<forall>u. u \<noteq> user_id ia \<longrightarrow> get_user (load_data st') u = get_user (load_data (between st)) u)"
proof -
  have "st' = claim_commit ia a t (between st)"
    using assms(1,2,3) by (simp add: claim_def Let_def)
  then show ?thesis using assms(4) by (simp add: get_user_claim_commit)
qed

theorem commit_frame_witness:
  "claim_check cfg0 bot0 alice 100 (store_with (rec_at 0)) = Inr user_addr
   \<and> api_transfer loads_ok (HttpResponse 200 [])
       = Inr (JObj [(''from_credits'', JInt 95), (''to_credits'', JInt 5)])
   \<and> get_user (load_data (fst (snd (claim cfg0 bot0 loads_ok alice 100 (HttpResponse 200 [])
         reregister (store_with (rec_at 0)))))) (user_id alice)
       = Some \<lparr>address = Some user_addr, registered_at = Some 150, last_claim_at = Some 100,
               other = []\<rparr>"
proof -
  have r2: "or_empty (get_user (load_data (reregister (store_with (rec_at 0)))) (user_id alice))
      = \<lparr>address = Some other_addr, registered_at = Some 150, last_claim_at = Some 0,
         other = []\<rparr>"
    by (simp add: reregister_example alice_def get_user_store_with or_empty_def rec_at_def
        last_claim_of_def)
  from commit_frame [OF claim_check_example' api_transfer_ok_example refl refl,
      of reregister]
  have "get_user (load_data (fst (snd (claim cfg0 bot0 loads_ok alice 100 (HttpResponse 200 [])
         reregister (store_with (rec_at 0)))))) (user_id alice)
       = Some ((or_empty (get_user (load_data (reregister (store_with (rec_at 0))))
            (user_id alice)))\<lparr>address := Some user_addr, last_claim_at := Some 100\<rparr>)"
    by blast
  then have "get_user (load_data (fst (snd (claim cfg0 bot0 loads_ok alice 100
         (HttpResponse 200 []) reregister (store_with (rec_at 0)))))) (user_id alice)
       = Some \<lparr>address = Some user_addr, registered_at = Some 150, last_claim_at = Some 100,
               other = []\<rparr>"
    unfolding r2 by simp
  then show ?thesis using claim_check_example' api_transfer_ok_example by blast
qed

text \<open>
  C3 does not hold of \<open>claim\<close>: the lock is released between the cooldown check and the
  commit, and nothing marks a claim in progress. Here a requester who never claimed
  sends two claims; the second (at time 101) runs while the first (at time 100) awaits
  its transfer. Both checks read the store before either commit, both pass, both
  transfers are issued and both claims answer \<open>ClaimSuccessful\<close>.
\<close>

theorem concurrent_claims_double_spend:
  "claim_check cfg0 bot0 alice 100 (store_with (rec_at 0)) = Inr user_addr
   \<and> claim_check cfg0 bot0 alice 101 (store_with (rec_at 0)) = Inr user_addr
   \<and> fst (claim cfg0 bot0 loads_ok alice 101 (HttpResponse 200 []) id (store_with (rec_at 0)))
       = ClaimSuccessful 5 user_addr (Some (JInt 95)) (Some (JInt 5))
   \<and> snd (snd (claim cfg0 bot0 loads_ok alice 101 (HttpResponse 200 []) id
         (store_with (rec_at 0))))
       = Some \<lparr>bearer = ''secret'', to_address = user_addr, amount = 5\<rparr>
   \<and> fst (claim cfg0 bot0 loads_ok alice 100 (HttpResponse 200 []) second_claim
         (store_with (rec_at 0)))
       = ClaimSuccessful 5 user_addr (Some (JInt 95)) (Some (JInt 5))
   \<and> snd (snd (claim cfg0 bot0 loads_ok alice 100 (HttpResponse 200 []) second_claim
         (store_with (rec_at 0))))
       = Some \<lparr>bearer = ''secret'', to_address = user_addr, amount = 5\<rparr>"
  by (simp add: claim_def claim_check_example api_transfer_ok_example Let_def claim_success_def
      dict_get_def cfg0_fields)

section \<open>Startup\<close>

text \<open>
  C9, as stated, fails: with a token but no sender secret, \<open>main\<close> runs the bot, and the
  missing secret is found and reported by each \<open>claim\<close>.
\<close>

theorem missing_secret_not_fatal_counterexample:
  "FAUCET_SENDER_SECRET cfg_no_secret = []
   \<and> main cfg_no_secret = BotRun ''token''
   \<and> fst (claim cfg_no_secret (setup_hook cfg_no_secret loads_me (HttpResponse 200 []))
        loads_ok alice 100 (HttpResponse 200 []) id (store_with (rec_at 0))) = Misconfigured"
  by (simp add: main_def claim_def claim_check_def channel_allowed_def cfg_no_secret_def
      cfg0_def)

text \<open>
  C9 (amended): \<open>main\<close> exits at startup exactly when \<open>DISCORD_TOKEN\<close> is empty, and
  runs the bot otherwise, whatever the sender secret and the data file are. With no
  sender secret \<open>setup_hook\<close> leaves the sender address unset, and every \<open>claim\<close> in
  an allowed channel answers \<open>Misconfigured\<close>, with the store untouched and no transfer.
\<close>

theorem startup_only_needs_token:
  "(main cfg = SystemExit ''Missing DISCORD_TOKEN'' \<longleftrightarrow> DISCORD_TOKEN cfg = [])
   \<and> (DISCORD_TOKEN cfg \<noteq> [] \<longrightarrow> main cfg = BotRun (DISCORD_TOKEN cfg))
   \<and> (FAUCET_SENDER_SECRET cfg = [] \<longrightarrow>
        sender_address (setup_hook cfg jl me_out) = None
        \<and> (channel_allowed cfg ia \<longrightarrow>
             claim cfg b jl ia t out between st = (Misconfigured, st, None)))"
  by (simp add: main_def setup_hook_no_secret claim_def claim_check_def)

theorem startup_only_needs_token_witness:
  "DISCORD_TOKEN cfg_no_token = []
   \<and> main cfg_no_token = SystemExit ''Missing DISCORD_TOKEN''
   \<and> DISCORD_TOKEN cfg_no_secret \<noteq> []
   \<and> main cfg_no_secret = BotRun (DISCORD_TOKEN cfg_no_secret)
   \<and> FAUCET_SENDER_SECRET cfg_no_secret = []
   \<and> channel_allowed cfg_no_secret alice
   \<and> sender_address (setup_hook cfg_no_secret loads_me (HttpResponse 200 [])) = None
   \<and> claim cfg_no_secret bot0 loads_ok alice 100 (HttpResponse 200 []) id (store_with (rec_at 0))
       = (Misconfigured, store_with (rec_at 0), None)"
proof -
  have h: "DISCORD_TOKEN cfg_no_token = []" "DISCORD_TOKEN cfg_no_secret \<noteq> []"
    "FAUCET_SENDER_SECRET cfg_no_secret = []" "channel_allowed cfg_no_secret alice"
    by (simp_all add: cfg_no_token_def cfg_no_secret_def cfg0_def channel_allowed_def)
  from startup_only_needs_token [of cfg_no_token] h(1)
  have 1: "main cfg_no_token = SystemExit ''Missing DISCORD_TOKEN''" by blast
  from startup_only_needs_token [where cfg = cfg_no_secret and jl = loads_me
      and me_out = "HttpResponse 200 []" and ia = alice] h
  have 2: "main cfg_no_secret = BotRun (DISCORD_TOKEN cfg_no_secret)"
    and 3: "sender_address (setup_hook cfg_no_secret loads_me (HttpResponse 200 [])) = None"
    by blast+
  from startup_only_needs_token [where cfg = cfg_no_secret and jl = loads_ok and b = bot0
      and ia = alice and t = 100 and out = "HttpResponse 200 []" and between = id
      and st = "store_with (rec_at 0)"] h
  have 4: "claim cfg_no_secret bot0 loads_ok alice 100 (HttpResponse 200 []) id
      (store_with (rec_at 0)) = (Misconfigured, store_with (rec_at 0), None)"
    by blast
  from h 1 2 3 4 show ?thesis by blast
qed

section \<open>Saving the data file\<close>

lemma tmp_path_neq: "tmp_path p \<noteq> p"
  by (simp add: tmp_path_def)

lemma write_steps_other:
  "s \<in> set (write_steps q txt f) \<Longrightarrow> p \<noteq> q \<Longrightarrow> s p = f p"
  by (auto simp: write_steps_def)

lemma write_steps_last: "last (write_steps q txt f) = f(q \<mapsto> txt)"
  by (simp add: write_steps_def last_map)

lemma write_steps_nonempty: "write_steps q txt f \<noteq> []"
  by (simp add: write_steps_def)

lemma butlast_save_data_trace:
  "butlast (save_data_trace p txt f) = f # write_steps (tmp_path p) txt f"
  by (simp add: save_data_trace_def Let_def butlast_append)

lemma last_save_data_trace:
  "last (save_data_trace p txt f) = os_replace (tmp_path p) p (f(tmp_path p \<mapsto> txt))"
  by (simp add: save_data_trace_def Let_def write_steps_last)

text \<open>
  C8: in every file system \<open>save_data\<close> passes through before its last step, the data
  file holds what it held before (only the temporary file is written, and it is another
  path); the rename happens when the temporary file holds the whole text; after it the
  data file holds the whole text. So in each of them, and after a crash in any, the
  data file holds the complete old or the complete new text.
\<close>

theorem save_data_atomic:
  "(\<forall>s \<in> set (butlast (save_data_trace p txt f)). s p = f p)
   \<and> last (butlast (save_data_trace p txt f)) (tmp_path p) = Some txt
   \<and> last (save_data_trace p txt f) p = Some txt
   \<and> (\<forall>s \<in> set (save_data_trace p txt f). s p = f p \<or> s p = Some txt)"
proof -
  have ne: "p \<noteq> tmp_path p" using tmp_path_neq [of p] by simp
  have 1: "\<forall>s \<in> set (butlast (save_data_trace p txt f)). s p = f p"
    using write_steps_other [OF _ ne] by (auto simp: butlast_save_data_trace)
  have 2: "last (butlast (save_data_trace p txt f)) (tmp_path p) = Some txt"
    by (simp add: butlast_save_data_trace write_steps_nonempty write_steps_last)
  have 3: "last (save_data_trace p txt f) p = Some txt"
    using ne by (simp add: last_save_data_trace os_replace_def)
  have "save_data_trace p txt f
      = butlast (save_data_trace p txt f) @ [last (save_data_trace p txt f)]"
    by (simp add: save_data_trace_def Let_def)
  then have "set (save_data_trace p txt f)
      = set (butlast (save_data_trace p txt f)) \<union> {last (save_data_trace p txt f)}"
    by (metis list.set(1) list.simps(15) set_append)
  with 1 3 have 4: "\<forall>s \<in> set (save_data_trace p txt f). s p = f p \<or> s p = Some txt"
    by auto
  from 1 2 3 4 show ?thesis by blast
qed

theorem save_data_atomic_witness:
  "last (butlast (save_data_trace ''discord_pow_faucet.json'' ''new'' fs0))
      (tmp_path ''discord_pow_faucet.json'') = Some ''new''
   \<and> last (save_data_trace ''discord_pow_faucet.json'' ''new'' fs0) ''discord_pow_faucet.json''
       = Some ''new''
   \<and> map (\<lambda>s. s ''discord_pow_faucet.json'')
         (save_data_trace ''discord_pow_faucet.json'' ''new'' fs0)
       = [Some ''old'', Some ''old'', Some ''old'', Some ''old'', Some ''old'', Some ''new'']
   \<and> map (\<lambda>s. s ''discord_pow_faucet.json.tmp'')
         (save_data_trace ''discord_pow_faucet.json'' ''new'' fs0)
       = [None, Some [], Some ''n'', Some ''ne'', Some ''new'', None]"
proof -
  have e: "map (\<lambda>s. s ''discord_pow_faucet.json'')
         (save_data_trace ''discord_pow_faucet.json'' ''new'' fs0)
       = [Some ''old'', Some ''old'', Some ''old'', Some ''old'', Some ''old'', Some ''new'']"
    "map (\<lambda>s. s ''discord_pow_faucet.json.tmp'')
         (save_data_trace ''discord_pow_faucet.json'' ''new'' fs0)
       = [None, Some [], Some ''n'', Some ''ne'', Some ''new'', None]"
    by code_simp+
  from save_data_atomic [of "''discord_pow_faucet.json''" "''new''" fs0] e
  show ?thesis by blast
qed

end
